theory Spec2Isabelle
  imports Main
begin

section \<open>Python datetime values\<close>

text \<open>
  The rules engine of \<^verbatim>\<open>python/common/prohibitions.py\<close> computes with the
  standard library's \<^verbatim>\<open>datetime\<close>. A datetime object holds wall-clock fields
  (year, month, day, hour, minute, second, microsecond) and a \<^verbatim>\<open>tzinfo\<close>
  attribute that is \<^verbatim>\<open>None\<close> or a time-zone object. The wall-clock fields are kept
  here as one integer: the number of microseconds between 0001-01-01T00:00:00 and the
  wall-clock reading. \<^verbatim>\<open>datetime.min\<close> is 0 and \<^verbatim>\<open>datetime.max\<close> is
  \<open>max_wall - 1\<close>. The \<^verbatim>\<open>fold\<close> attribute is not modelled.

  A time-zone object is known by its identity (the interpreter compares
  \<^verbatim>\<open>tzinfo\<close> attributes with \<^verbatim>\<open>is\<close>) and by its \<^verbatim>\<open>utcoffset\<close> method,
  which maps the wall-clock reading of the datetime that carries it to an offset in
  microseconds, or to \<^verbatim>\<open>None\<close>.
\<close>

datatype error = TypeError | OverflowError | ValueError

definition bind_err :: "error + 'a \<Rightarrow> ('a \<Rightarrow> error + 'b) \<Rightarrow> error + 'b" where
  \<comment> \<open>sequencing: an exception raised by the first computation ends the call\<close>
  "bind_err m f = (case m of Inl e \<Rightarrow> Inl e | Inr x \<Rightarrow> f x)"

datatype tzinfo = TzInfo (tz_ident: nat) (tz_utcoffset: "int \<Rightarrow> int option")

record datetime =
  wall :: int
  tzinfo :: "tzinfo option"

definition us_per_day :: int where
  "us_per_day = 86400000000"

definition max_wall :: int where
  \<comment> \<open>\<^verbatim>\<open>date.max.toordinal()\<close> is 3652059 (9999-12-31)\<close>
  "max_wall = 3652059 * us_per_day"

definition add_days :: "datetime \<Rightarrow> int \<Rightarrow> error + datetime" where
  \<comment> \<open>\<^verbatim>\<open>d + timedelta(days=n)\<close>: arithmetic on the wall clock, the tzinfo is kept;
      \<^verbatim>\<open>OverflowError\<close> when the result leaves years 1 to 9999\<close>
  "add_days d n =
     (let w = wall d + n * us_per_day
      in if 0 \<le> w \<and> w < max_wall then Inr (d\<lparr>wall := w\<rparr>) else Inl OverflowError)"

definition replace_tzinfo :: "datetime \<Rightarrow> tzinfo \<Rightarrow> datetime" where
  \<comment> \<open>\<^verbatim>\<open>d.replace(tzinfo=tz)\<close>\<close>
  "replace_tzinfo d tz = d\<lparr>tzinfo := Some tz\<rparr>"

definition utcoffset :: "datetime \<Rightarrow> error + int option" where
  \<comment> \<open>\<^verbatim>\<open>d.utcoffset()\<close>: \<^verbatim>\<open>None\<close> without a tzinfo; an offset that is not strictly
      between minus one day and one day is a \<^verbatim>\<open>ValueError\<close>\<close>
  "utcoffset d =
     (case tzinfo d of
        None \<Rightarrow> Inr None
      | Some tz \<Rightarrow>
          (case tz_utcoffset tz (wall d) of
             None \<Rightarrow> Inr None
           | Some off \<Rightarrow>
               if - us_per_day < off \<and> off < us_per_day then Inr (Some off)
               else Inl ValueError))"

definition cmp_int :: "int \<Rightarrow> int \<Rightarrow> int" where
  "cmp_int x y = (if x < y then - 1 else if x = y then 0 else 1)"

definition dt_cmp :: "datetime \<Rightarrow> datetime \<Rightarrow> error + int" where
  \<comment> \<open>\<^verbatim>\<open>datetime._cmp\<close> as the ordering operators call it: the wall clocks are
      compared when the tzinfo objects are identical or the offsets are equal; a naive and
      an aware value do not compare; otherwise the difference of the UTC instants decides\<close>
  "dt_cmp a b =
     (if tzinfo a = tzinfo b then Inr (cmp_int (wall a) (wall b))
      else
        (case utcoffset a of
           Inl e \<Rightarrow> Inl e
         | Inr myoff \<Rightarrow>
             (case utcoffset b of
                Inl e \<Rightarrow> Inl e
              | Inr otoff \<Rightarrow>
                  if myoff = otoff then Inr (cmp_int (wall a) (wall b))
                  else
                    (case (myoff, otoff) of
                       (Some x, Some y) \<Rightarrow> Inr (cmp_int (wall a - wall b + y - x) 0)
                     | _ \<Rightarrow> Inl TypeError))))"

definition dt_gt :: "datetime \<Rightarrow> datetime \<Rightarrow> error + bool" where
  \<comment> \<open>\<^verbatim>\<open>a > b\<close>\<close>
  "dt_gt a b = (case dt_cmp a b of Inl e \<Rightarrow> Inl e | Inr c \<Rightarrow> Inr (0 < c))"

definition dt_le :: "datetime \<Rightarrow> datetime \<Rightarrow> error + bool" where
  \<comment> \<open>\<^verbatim>\<open>a <= b\<close>\<close>
  "dt_le a b = (case dt_cmp a b of Inl e \<Rightarrow> Inl e | Inr c \<Rightarrow> Inr (c \<le> 0))"

definition dt_eq :: "datetime \<Rightarrow> datetime \<Rightarrow> error + bool" where
  \<comment> \<open>\<^verbatim>\<open>a == b\<close>: the same comparison, but a naive and an aware value are unequal
      rather than incomparable\<close>
  "dt_eq a b =
     (case dt_cmp a b of
        Inr c \<Rightarrow> Inr (c = 0)
      | Inl TypeError \<Rightarrow> Inr False
      | Inl e \<Rightarrow> Inl e)"

definition aware :: "datetime \<Rightarrow> bool" where
  \<comment> \<open>a datetime is aware when its tzinfo yields an offset\<close>
  "aware d = (case utcoffset d of Inr (Some off) \<Rightarrow> True | _ \<Rightarrow> False)"

definition utc_instant :: "datetime \<Rightarrow> int" where
  \<comment> \<open>the instant of an aware datetime, in microseconds: wall clock minus offset\<close>
  "utc_instant d = (case utcoffset d of Inr (Some off) \<Rightarrow> wall d - off | _ \<Rightarrow> wall d)"

definition vancouver_lmt :: int where
  \<comment> \<open>minus 8 hours 12 minutes, in microseconds\<close>
  "vancouver_lmt = - 29520000000"

definition pytz_vancouver :: tzinfo where
  \<comment> \<open>\<^verbatim>\<open>pytz.timezone('America/Vancouver')\<close>: the zone object itself, which pytz keeps
      one of per zone name. Attached with \<^verbatim>\<open>replace\<close> it answers
      \<^verbatim>\<open>utcoffset\<close> with the zone's first entry, local mean time.\<close>
  "pytz_vancouver = TzInfo 0 (\<lambda>w. Some vancouver_lmt)"

section \<open>The prohibition policies\<close>

datatype prohibition = ProhibitionBase | UnlicencedDriver | ImmediateRoadside | AdministrativeDriving

fun WRITTEN_REVIEW_PRICE :: "prohibition \<Rightarrow> int" where
  "WRITTEN_REVIEW_PRICE UnlicencedDriver = 50"
| "WRITTEN_REVIEW_PRICE p = 100"

fun ORAL_REVIEW_PRICE :: "prohibition \<Rightarrow> int" where
  "ORAL_REVIEW_PRICE p = 200"

fun MUST_APPLY_FOR_REVIEW_WITHIN_7_DAYS :: "prohibition \<Rightarrow> bool" where
  "MUST_APPLY_FOR_REVIEW_WITHIN_7_DAYS UnlicencedDriver = False"
| "MUST_APPLY_FOR_REVIEW_WITHIN_7_DAYS p = True"

fun DRIVERS_LICENCE_MUST_BE_SEIZED_BEFORE_APPLICATION_ACCEPTED :: "prohibition \<Rightarrow> bool" where
  "DRIVERS_LICENCE_MUST_BE_SEIZED_BEFORE_APPLICATION_ACCEPTED UnlicencedDriver = False"
| "DRIVERS_LICENCE_MUST_BE_SEIZED_BEFORE_APPLICATION_ACCEPTED p = True"

fun MIN_DAYS_FROM_SCHEDULING_TO_REVIEW :: "prohibition \<Rightarrow> int" where
  "MIN_DAYS_FROM_SCHEDULING_TO_REVIEW p = 4"

fun MIN_DAYS_FROM_SERVED_TO_REVIEW :: "prohibition \<Rightarrow> int" where
  "MIN_DAYS_FROM_SERVED_TO_REVIEW p = 6"

fun MAX_DAYS_FROM_SERVED_TO_REVIEW :: "prohibition \<Rightarrow> int" where
  "MAX_DAYS_FROM_SERVED_TO_REVIEW p = 16"

definition prohibition_factory :: "string \<Rightarrow> prohibition option \<times> string list" where
  \<comment> \<open>the second component is what the call logs at level critical\<close>
  "prohibition_factory prohibition_type =
     (if prohibition_type = ''UL'' then (Some UnlicencedDriver, [])
      else if prohibition_type = ''IRP'' then (Some ImmediateRoadside, [])
      else if prohibition_type = ''ADP'' then (Some AdministrativeDriving, [])
      else (None, [''prohibition_type not known'']))"

definition base_get_min_max_review_dates :: "datetime \<Rightarrow> datetime \<Rightarrow> error + datetime \<times> datetime" where
  \<comment> \<open>\<^verbatim>\<open>ProhibitionBase.get_min_max_review_dates(service_date, today)\<close>; the two
      \<^verbatim>\<open>if\<close> statements overwrite the legislated dates with the earliest possible one\<close>
  "base_get_min_max_review_dates service_date today =
     bind_err (add_days (replace_tzinfo today pytz_vancouver)
                 (MIN_DAYS_FROM_SCHEDULING_TO_REVIEW ProhibitionBase))
       (\<lambda>earliest_possible_date.
     bind_err (add_days service_date (MIN_DAYS_FROM_SERVED_TO_REVIEW ProhibitionBase))
       (\<lambda>legislated_minimum.
     bind_err (dt_gt earliest_possible_date legislated_minimum)
       (\<lambda>later_than_minimum.
     bind_err (add_days service_date (MAX_DAYS_FROM_SERVED_TO_REVIEW ProhibitionBase))
       (\<lambda>legislated_maximum.
     bind_err (dt_gt earliest_possible_date legislated_maximum)
       (\<lambda>later_than_maximum.
          Inr (if later_than_minimum then earliest_possible_date else legislated_minimum,
               if later_than_maximum then earliest_possible_date else legislated_maximum))))))"

definition ul_get_min_max_review_dates ::
  "(datetime \<Rightarrow> error + datetime) \<Rightarrow> datetime \<Rightarrow> datetime \<Rightarrow> error + datetime \<times> datetime" where
  \<comment> \<open>\<^verbatim>\<open>UnlicencedDriver.get_min_max_review_dates(service_date, today)\<close>. The helper
      \<^verbatim>\<open>localize_timezone\<close> of \<^verbatim>\<open>python/common/helper.py\<close> is not among the
      sources: it is the parameter \<open>localize_timezone\<close>, which may raise.\<close>
  "ul_get_min_max_review_dates localize_timezone service_date today =
     bind_err (localize_timezone today)
       (\<lambda>localized.
     bind_err (add_days localized (MIN_DAYS_FROM_SCHEDULING_TO_REVIEW UnlicencedDriver))
       (\<lambda>min_date.
     bind_err (localize_timezone today)
       (\<lambda>localized_again.
     bind_err (add_days localized_again (MAX_DAYS_FROM_SERVED_TO_REVIEW UnlicencedDriver))
       (\<lambda>max_date. Inr (min_date, max_date)))))"

fun get_min_max_review_dates ::
  "(datetime \<Rightarrow> error + datetime) \<Rightarrow> prohibition \<Rightarrow> datetime \<Rightarrow> datetime
     \<Rightarrow> error + datetime \<times> datetime" where
  \<comment> \<open>method resolution: only UnlicencedDriver overrides the base method\<close>
  "get_min_max_review_dates lt UnlicencedDriver service_date today =
     ul_get_min_max_review_dates lt service_date today"
| "get_min_max_review_dates lt p service_date today =
     base_get_min_max_review_dates service_date today"

definition base_amount_due :: "string \<Rightarrow> int option" where
  \<comment> \<open>\<^verbatim>\<open>ProhibitionBase.amount_due\<close>; falling off the end returns \<^verbatim>\<open>None\<close>\<close>
  "base_amount_due presentation_type =
     (if presentation_type = ''WRIT'' then Some (WRITTEN_REVIEW_PRICE ProhibitionBase)
      else if presentation_type = ''ORAL'' then Some (ORAL_REVIEW_PRICE ProhibitionBase)
      else None)"

definition ul_amount_due :: "string \<Rightarrow> int option" where
  \<comment> \<open>\<^verbatim>\<open>UnlicencedDriver.amount_due\<close>\<close>
  "ul_amount_due presentation_type = Some (WRITTEN_REVIEW_PRICE UnlicencedDriver)"

fun amount_due :: "prohibition \<Rightarrow> string \<Rightarrow> int option" where
  "amount_due UnlicencedDriver presentation_type = ul_amount_due presentation_type"
| "amount_due p presentation_type = base_amount_due presentation_type"

section \<open>The proleptic Gregorian calendar\<close>

text \<open>
  The standard library converts between a day number (\<^verbatim>\<open>toordinal\<close>, day 1 is
  0001-01-01) and year, month, day with \<^verbatim>\<open>_ymd2ord\<close> and \<^verbatim>\<open>_ord2ymd\<close>. The two
  month tables carry a placeholder at index 0, as in the library.
\<close>

definition is_leap :: "int \<Rightarrow> bool" where
  "is_leap year = (year mod 4 = 0 \<and> (year mod 100 \<noteq> 0 \<or> year mod 400 = 0))"

definition days_before_year :: "int \<Rightarrow> int" where
  "days_before_year year = (let y = year - 1 in y * 365 + y div 4 - y div 100 + y div 400)"

definition DAYS_IN_MONTH :: "int list" where
  "DAYS_IN_MONTH = [- 1, 31, 28, 31, 30, 31, 30, 31, 31, 30, 31, 30, 31]"

definition DAYS_BEFORE_MONTH :: "int list" where
  "DAYS_BEFORE_MONTH = [- 1, 0, 31, 59, 90, 120, 151, 181, 212, 243, 273, 304, 334]"

definition days_in_month :: "int \<Rightarrow> int \<Rightarrow> int" where
  "days_in_month year month =
     (if month = 2 \<and> is_leap year then 29 else DAYS_IN_MONTH ! nat month)"

definition days_before_month :: "int \<Rightarrow> int \<Rightarrow> int" where
  "days_before_month year month =
     DAYS_BEFORE_MONTH ! nat month + (if month > 2 \<and> is_leap year then 1 else 0)"

definition ymd2ord :: "int \<Rightarrow> int \<Rightarrow> int \<Rightarrow> int" where
  "ymd2ord year month day = days_before_year year + days_before_month year month + day"

definition ord2ymd :: "int \<Rightarrow> int \<times> int \<times> int" where
  "ord2ymd n =
     (let n0 = n - 1;
          n400 = n0 div 146097; r400 = n0 mod 146097;
          n100 = r400 div 36524; r100 = r400 mod 36524;
          n4 = r100 div 1461; r4 = r100 mod 1461;
          n1 = r4 div 365; r1 = r4 mod 365;
          year = n400 * 400 + 1 + n100 * 100 + n4 * 4 + n1
      in if n1 = 4 \<or> n100 = 4 then (year - 1, 12, 31)
         else
           let leapyear = (n1 = 3 \<and> (n4 \<noteq> 24 \<or> n100 = 3));
               month = (r1 + 50) div 32;
               preceding = DAYS_BEFORE_MONTH ! nat month + (if month > 2 \<and> leapyear then 1 else 0)
           in if preceding > r1
              then (year, month - 1,
                    r1 - (preceding - (DAYS_IN_MONTH ! nat (month - 1)
                                        + (if month - 1 = 2 \<and> leapyear then 1 else 0))) + 1)
              else (year, month, r1 - preceding + 1))"


definition weekday :: "int \<Rightarrow> int" where
  \<comment> \<open>\<^verbatim>\<open>date.weekday()\<close> of a day number: Monday is 0, Sunday is 6\<close>
  "weekday n = (n + 6) mod 7"

definition toordinal :: "datetime \<Rightarrow> int" where
  "toordinal d = wall d div us_per_day + 1"

definition hour :: "datetime \<Rightarrow> int" where
  "hour d = wall d mod us_per_day div 3600000000"

definition minute :: "datetime \<Rightarrow> int" where
  "minute d = wall d mod 3600000000 div 60000000"

definition second :: "datetime \<Rightarrow> int" where
  "second d = wall d mod 60000000 div 1000000"

definition microsecond :: "datetime \<Rightarrow> int" where
  "microsecond d = wall d mod 1000000"


section \<open>The bridge to the case-management system\<close>














definition list_of_weekdays_dates_between :: "int \<Rightarrow> int \<Rightarrow> int list" where
  \<comment> \<open>Modelled from the spec: \<^verbatim>\<open>list_of_weekdays_dates_between\<close> of
      \<^verbatim>\<open>python/common/vips_api.py\<close>, which is not among the sources. Dates are day
      numbers; the sequence runs over every day from the first to the last date, both
      included, and keeps Monday to Friday.\<close>
  "list_of_weekdays_dates_between start_date end_date =
     filter (\<lambda>d. weekday d < 5) [start_date..end_date]"

definition weekday_abbrev :: "int \<Rightarrow> string" where
  \<comment> \<open>the names of the weekday numbers\<close>
  "weekday_abbrev n = [''Mon'', ''Tue'', ''Wed'', ''Thu'', ''Fri'', ''Sat'', ''Sun''] ! nat n"

section \<open>Sample values\<close>

text \<open>
  Concrete datetimes for the closed instances below. 2020-09-01 is day 737669 of the
  proleptic Gregorian calendar, so its midnight is microsecond 737668 * 86400000000.
\<close>

definition utc_minus_7 :: tzinfo where
  \<comment> \<open>a fixed-offset zone, seven hours behind UTC\<close>
  "utc_minus_7 = TzInfo 1 (\<lambda>w. Some (- 25200000000))"

definition vancouver_daylight :: tzinfo where
  \<comment> \<open>the civil offset of America/Vancouver on the sample dates of September 2020
      (daylight time, seven hours behind UTC), as a zone object of its own\<close>
  "vancouver_daylight = TzInfo 3 (\<lambda>w. Some (- 25200000000))"

definition localize_daylight :: "datetime \<Rightarrow> error + datetime" where
  \<comment> \<open>a localizer for the instances below: it attaches \<open>vancouver_daylight\<close> and
      leaves the wall clock unchanged\<close>
  "localize_daylight d = Inr (replace_tzinfo d vancouver_daylight)"

definition today_2020_09_01 :: datetime where
  \<comment> \<open>2020-09-01T00:00:00, naive\<close>
  "today_2020_09_01 = \<lparr>wall = 63734515200000000, tzinfo = None\<rparr>"

definition served_2020_08_28 :: datetime where
  \<comment> \<open>2020-08-28T00:00:00-07:00\<close>
  "served_2020_08_28 = \<lparr>wall = 63734169600000000, tzinfo = Some utc_minus_7\<rparr>"

definition served_2020_08_30 :: datetime where
  \<comment> \<open>2020-08-30T00:30:00-07:00\<close>
  "served_2020_08_30 = \<lparr>wall = 63734344200000000, tzinfo = Some utc_minus_7\<rparr>"

definition served_2020_07_01 :: datetime where
  \<comment> \<open>2020-07-01T00:00:00-07:00\<close>
  "served_2020_07_01 = \<lparr>wall = 63729158400000000, tzinfo = Some utc_minus_7\<rparr>"

definition naive_2020_08_28 :: datetime where
  \<comment> \<open>2020-08-28T00:00:00, naive\<close>
  "naive_2020_08_28 = \<lparr>wall = 63734169600000000, tzinfo = None\<rparr>"




section \<open>Facts about datetime arithmetic and comparison\<close>

lemma bind_err_Inr [simp]: "bind_err (Inr x) f = f x"
  by (simp add: bind_err_def)

lemma bind_err_Inl [simp]: "bind_err (Inl e) f = Inl e"
  by (simp add: bind_err_def)

lemma bind_err_eq_Inr: "bind_err m f = Inr y \<longleftrightarrow> (\<exists>x. m = Inr x \<and> f x = Inr y)"
  by (cases m) simp_all

lemma add_days_Inr:
  "add_days d n = Inr d' \<Longrightarrow> wall d' = wall d + n * us_per_day \<and> tzinfo d' = tzinfo d"
  by (auto simp: add_days_def Let_def split: if_splits)

lemma dt_cmp_same_tz:
  "tzinfo a = tzinfo b \<Longrightarrow> dt_cmp a b = Inr (cmp_int (wall a) (wall b))"
  by (simp add: dt_cmp_def)

lemma utcoffset_bound:
  "utcoffset d = Inr (Some x) \<Longrightarrow> - us_per_day < x \<and> x < us_per_day"
  by (auto simp: utcoffset_def split: option.splits if_splits)

lemma dt_cmp_slack:
  assumes "dt_cmp a b = Inr c"
  shows "\<exists>k. - 2 * us_per_day < k \<and> k < 2 * us_per_day \<and> c = cmp_int (wall a - wall b + k) 0"
proof (cases "tzinfo a = tzinfo b")
  case True
  with assms have "c = cmp_int (wall a - wall b + 0) 0"
    by (auto simp: dt_cmp_def cmp_int_def)
  moreover have "- 2 * us_per_day < (0::int) \<and> (0::int) < 2 * us_per_day"
    by (simp add: us_per_day_def)
  ultimately show ?thesis by blast
next
  case False
  with assms obtain myoff otoff where o: "utcoffset a = Inr myoff" "utcoffset b = Inr otoff"
    by (auto simp: dt_cmp_def split: sum.splits)
  show ?thesis
  proof (cases "myoff = otoff")
    case True
    with assms False o have "c = cmp_int (wall a - wall b + 0) 0"
      by (auto simp: dt_cmp_def cmp_int_def)
    moreover have "- 2 * us_per_day < (0::int) \<and> (0::int) < 2 * us_per_day"
      by (simp add: us_per_day_def)
    ultimately show ?thesis by blast
  next
    case neq: False
    with assms False o obtain x y where xy: "myoff = Some x" "otoff = Some y"
      and c: "c = cmp_int (wall a - wall b + y - x) 0"
      by (auto simp: dt_cmp_def split: option.splits)
    from o xy utcoffset_bound have "- us_per_day < x \<and> x < us_per_day" "- us_per_day < y \<and> y < us_per_day"
      by blast+
    then have "- 2 * us_per_day < y - x \<and> y - x < 2 * us_per_day" by linarith
    moreover from c have "c = cmp_int (wall a - wall b + (y - x)) 0" by (simp add: algebra_simps)
    ultimately show ?thesis by blast
  qed
qed

lemma dt_gt_cases:
  assumes "dt_gt a b = Inr g"
  shows "\<exists>k. - 2 * us_per_day < k \<and> k < 2 * us_per_day \<and> g = (0 < wall a - wall b + k)"
proof -
  from assms obtain c where c: "dt_cmp a b = Inr c" "g = (0 < c)"
    by (auto simp: dt_gt_def split: sum.splits)
  from dt_cmp_slack[OF c(1)] obtain k where
    k: "- 2 * us_per_day < k" "k < 2 * us_per_day" "c = cmp_int (wall a - wall b + k) 0" by blast
  from c(2) k(3) have "g = (0 < wall a - wall b + k)" by (auto simp: cmp_int_def)
  with k show ?thesis by blast
qed

lemma dt_gt_False_le: "dt_gt a b = Inr False \<Longrightarrow> dt_le a b = Inr True"
  by (auto simp: dt_gt_def dt_le_def split: sum.splits)

lemma dt_le_refl: "dt_le a a = Inr True"
  by (simp add: dt_le_def dt_cmp_def cmp_int_def)

lemma base_window_unfold:
  assumes "base_get_min_max_review_dates sd today = Inr (mn, mx)"
  shows "\<exists>E L6 L16 g1 g2.
           add_days (replace_tzinfo today pytz_vancouver) 4 = Inr E \<and>
           add_days sd 6 = Inr L6 \<and> dt_gt E L6 = Inr g1 \<and>
           add_days sd 16 = Inr L16 \<and> dt_gt E L16 = Inr g2 \<and>
           mn = (if g1 then E else L6) \<and> mx = (if g2 then E else L16)"
proof -
  from assms obtain E L6 g1 L16 g2 where
    "add_days (replace_tzinfo today pytz_vancouver) 4 = Inr E"
    "add_days sd 6 = Inr L6" "dt_gt E L6 = Inr g1"
    "add_days sd 16 = Inr L16" "dt_gt E L16 = Inr g2"
    "(if g1 then E else L6, if g2 then E else L16) = (mn, mx)"
    unfolding base_get_min_max_review_dates_def bind_err_eq_Inr
    by (elim exE conjE) simp
  then show ?thesis by blast
qed

lemma base_window_ordered:
  assumes "base_get_min_max_review_dates sd today = Inr (mn, mx)"
  shows "dt_le mn mx = Inr True"
proof -
  from base_window_unfold[OF assms] obtain E L6 L16 g1 g2 where
    E: "add_days (replace_tzinfo today pytz_vancouver) 4 = Inr E" and
    L6: "add_days sd 6 = Inr L6" and g1: "dt_gt E L6 = Inr g1" and
    L16: "add_days sd 16 = Inr L16" and g2: "dt_gt E L16 = Inr g2" and
    mn: "mn = (if g1 then E else L6)" and mx: "mx = (if g2 then E else L16)"
    by blast
  from add_days_Inr[OF L6] add_days_Inr[OF L16]
  have w: "wall L6 = wall sd + 6 * us_per_day" "wall L16 = wall sd + 16 * us_per_day"
    and tz: "tzinfo L6 = tzinfo L16" by simp_all
  show ?thesis
  proof (cases g1)
    case True
    show ?thesis
    proof (cases g2)
      case True
      with \<open>g1\<close> mn mx show ?thesis by (simp add: dt_le_refl)
    next
      case False
      with g2 have "dt_le E L16 = Inr True" by (simp add: dt_gt_False_le)
      with \<open>g1\<close> False mn mx show ?thesis by simp
    qed
  next
    case nf: False
    show ?thesis
    proof (cases g2)
      case True
      from dt_gt_cases[OF g1] nf obtain k1 where
        k1: "k1 < 2 * us_per_day" "\<not> 0 < wall E - wall L6 + k1" "- 2 * us_per_day < k1" by blast
      from dt_gt_cases[OF g2] True obtain k2 where
        k2: "- 2 * us_per_day < k2" "0 < wall E - wall L16 + k2" "k2 < 2 * us_per_day" by blast
      from k1 k2 w have False by (simp add: us_per_day_def)
      then show ?thesis ..
    next
      case False
      from tz have "dt_cmp L6 L16 = Inr (cmp_int (wall L6) (wall L16))"
        by (rule dt_cmp_same_tz)
      with w have "dt_le L6 L16 = Inr True"
        by (simp add: dt_le_def cmp_int_def us_per_day_def)
      with nf False mn mx show ?thesis by simp
    qed
  qed
qed

lemma ul_window_ordered:
  assumes "ul_get_min_max_review_dates lt sd today = Inr (mn, mx)"
  shows "dt_le mn mx = Inr True"
proof -
  from assms obtain t where t: "lt today = Inr t"
    and mn: "add_days t 4 = Inr mn" and mx: "add_days t 16 = Inr mx"
    unfolding ul_get_min_max_review_dates_def bind_err_eq_Inr
    by (elim exE conjE) simp
  from add_days_Inr[OF mn] add_days_Inr[OF mx]
  have w: "wall mn = wall t + 4 * us_per_day" "wall mx = wall t + 16 * us_per_day"
    and tz: "tzinfo mn = tzinfo mx" by simp_all
  from tz have "dt_cmp mn mx = Inr (cmp_int (wall mn) (wall mx))"
    by (rule dt_cmp_same_tz)
  with w show ?thesis by (simp add: dt_le_def cmp_int_def us_per_day_def)
qed

lemma utcoffset_replace_vancouver:
  "tzinfo d = Some pytz_vancouver \<Longrightarrow> utcoffset d = Inr (Some vancouver_lmt)"
  by (simp add: utcoffset_def pytz_vancouver_def vancouver_lmt_def us_per_day_def)

lemma aware_utcoffset: "aware d \<Longrightarrow> \<exists>off. utcoffset d = Inr (Some off)"
  by (auto simp: aware_def split: sum.splits option.splits)

lemma dt_gt_vancouver:
  assumes a: "tzinfo a = Some pytz_vancouver" and b: "aware b"
  shows "dt_gt a b = Inr (utc_instant b < utc_instant a)"
proof -
  from a have oa: "utcoffset a = Inr (Some vancouver_lmt)" by (rule utcoffset_replace_vancouver)
  from b obtain y where ob: "utcoffset b = Inr (Some y)" by (blast dest: aware_utcoffset)
  show ?thesis
  proof (cases "tzinfo a = tzinfo b")
    case True
    with a have "utcoffset b = Inr (Some vancouver_lmt)" by (simp add: utcoffset_replace_vancouver)
    with oa True show ?thesis
      by (simp add: dt_gt_def dt_cmp_def utc_instant_def cmp_int_def)
  next
    case False
    with oa ob show ?thesis
      by (simp add: dt_gt_def dt_cmp_def utc_instant_def cmp_int_def)
  qed
qed

lemma earliest_tzinfo:
  "add_days (replace_tzinfo today tz) n = Inr E \<Longrightarrow> tzinfo E = Some tz"
  by (drule add_days_Inr) (simp add: replace_tzinfo_def)

lemma base_window_eval:
  assumes "add_days (replace_tzinfo today pytz_vancouver) 4 = Inr E"
    and "add_days sd 6 = Inr L6" and "dt_gt E L6 = Inr g1"
    and "add_days sd 16 = Inr L16" and "dt_gt E L16 = Inr g2"
  shows "base_get_min_max_review_dates sd today = Inr (if g1 then E else L6, if g2 then E else L16)"
  using assms by (simp add: base_get_min_max_review_dates_def)

lemmas datetime_eval =
  add_days_def replace_tzinfo_def us_per_day_def max_wall_def dt_gt_def dt_le_def dt_eq_def
  dt_cmp_def utcoffset_def aware_def utc_instant_def cmp_int_def pytz_vancouver_def
  vancouver_lmt_def utc_minus_7_def vancouver_daylight_def

lemmas sample_defs =
  today_2020_09_01_def served_2020_08_28_def served_2020_07_01_def naive_2020_08_28_def served_2020_08_30_def

section \<open>Facts about the calendar and the bridge\<close>

lemmas calendar_eval =
  ymd2ord_def days_before_year_def days_before_month_def days_in_month_def is_leap_def
  DAYS_BEFORE_MONTH_def DAYS_IN_MONTH_def ord2ymd_def weekday_def toordinal_def hour_def
  minute_def second_def microsecond_def Let_def

lemma strict_sorted_upto: "sorted_wrt (<) [i..j]"
  by (simp add: strict_sorted_iff)

lemma weekdays_example:
  "list_of_weekdays_dates_between (ymd2ord 2020 9 1) (ymd2ord 2020 9 7) =
     [ymd2ord 2020 9 1, ymd2ord 2020 9 2, ymd2ord 2020 9 3, ymd2ord 2020 9 4, ymd2ord 2020 9 7]"
  by (simp add: list_of_weekdays_dates_between_def calendar_eval upto.simps)

subsection \<open>Day numbers and calendar dates\<close>








subsection \<open>Digits, clock fields and offsets\<close>

















section \<open>Review windows, fees and the policy registry\<close>

text \<open>
  Claim C1. For each of the four policies, a review window that
  \<open>get_min_max_review_dates\<close> returns has its minimum date no later than its maximum
  date under Python's own comparison, the collapsed window of two equal dates included.
  The call does return a window when the policy is not UnlicencedDriver, the three sums
  stay within the datetime range and the shifted service dates are timezone-aware; and
  for UnlicencedDriver when the localizer and the two sums succeed.
\<close>

theorem review_window_min_le_max:
  "(\<forall>mn mx. get_min_max_review_dates lt p service_date today = Inr (mn, mx)
       \<longrightarrow> dt_le mn mx = Inr True)
   \<and> ((\<exists>E L6 L16. p \<noteq> UnlicencedDriver
          \<and> add_days (replace_tzinfo today pytz_vancouver) 4 = Inr E
          \<and> add_days service_date 6 = Inr L6 \<and> aware L6
          \<and> add_days service_date 16 = Inr L16 \<and> aware L16)
       \<longrightarrow> (\<exists>mn mx. get_min_max_review_dates lt p service_date today = Inr (mn, mx)))
   \<and> ((\<exists>t mn mx. p = UnlicencedDriver \<and> lt today = Inr t
          \<and> add_days t 4 = Inr mn \<and> add_days t 16 = Inr mx)
       \<longrightarrow> (\<exists>mn mx. get_min_max_review_dates lt p service_date today = Inr (mn, mx)))"
proof (intro conjI allI impI)
  fix mn mx
  assume "get_min_max_review_dates lt p service_date today = Inr (mn, mx)"
  then show "dt_le mn mx = Inr True"
    by (cases p) (simp_all add: base_window_ordered ul_window_ordered)
next
  assume "\<exists>E L6 L16. p \<noteq> UnlicencedDriver
          \<and> add_days (replace_tzinfo today pytz_vancouver) 4 = Inr E
          \<and> add_days service_date 6 = Inr L6 \<and> aware L6
          \<and> add_days service_date 16 = Inr L16 \<and> aware L16"
  then obtain E L6 L16 where p: "p \<noteq> UnlicencedDriver"
    and E: "add_days (replace_tzinfo today pytz_vancouver) 4 = Inr E"
    and L6: "add_days service_date 6 = Inr L6" "aware L6"
    and L16: "add_days service_date 16 = Inr L16" "aware L16" by blast
  from E have tz: "tzinfo E = Some pytz_vancouver" by (rule earliest_tzinfo)
  from base_window_eval[OF E L6(1) dt_gt_vancouver[OF tz L6(2)] L16(1) dt_gt_vancouver[OF tz L16(2)]]
  have "\<exists>mn mx. base_get_min_max_review_dates service_date today = Inr (mn, mx)" by blast
  with p show "\<exists>mn mx. get_min_max_review_dates lt p service_date today = Inr (mn, mx)"
    by (cases p) simp_all
next
  assume "\<exists>t mn mx. p = UnlicencedDriver \<and> lt today = Inr t
          \<and> add_days t 4 = Inr mn \<and> add_days t 16 = Inr mx"
  then show "\<exists>mn mx. get_min_max_review_dates lt p service_date today = Inr (mn, mx)"
    by (auto simp: ul_get_min_max_review_dates_def)
qed

text \<open>
  An instance with today 2020-09-01 and a prohibition served on 2020-08-28: the window of
  an ImmediateRoadside prohibition runs from 2020-09-05 to 2020-09-13, that of an
  UnlicencedDriver prohibition, with a localizer that attaches daylight time, from
  2020-09-05 to 2020-09-17.
\<close>

theorem review_window_min_le_max_witness:
  "get_min_max_review_dates localize_daylight ImmediateRoadside served_2020_08_28 today_2020_09_01
     = Inr (\<lparr>wall = 63734860800000000, tzinfo = Some pytz_vancouver\<rparr>,
            \<lparr>wall = 63735552000000000, tzinfo = Some utc_minus_7\<rparr>)
   \<and> dt_le \<lparr>wall = 63734860800000000, tzinfo = Some pytz_vancouver\<rparr>
            \<lparr>wall = 63735552000000000, tzinfo = Some utc_minus_7\<rparr> = Inr True
   \<and> get_min_max_review_dates localize_daylight UnlicencedDriver served_2020_08_28 today_2020_09_01
     = Inr (\<lparr>wall = 63734860800000000, tzinfo = Some vancouver_daylight\<rparr>,
            \<lparr>wall = 63735897600000000, tzinfo = Some vancouver_daylight\<rparr>)
   \<and> dt_le \<lparr>wall = 63734860800000000, tzinfo = Some vancouver_daylight\<rparr>
            \<lparr>wall = 63735897600000000, tzinfo = Some vancouver_daylight\<rparr> = Inr True
   \<and> ImmediateRoadside \<noteq> UnlicencedDriver
   \<and> add_days (replace_tzinfo today_2020_09_01 pytz_vancouver) 4
        = Inr \<lparr>wall = 63734860800000000, tzinfo = Some pytz_vancouver\<rparr>
   \<and> add_days served_2020_08_28 6 = Inr \<lparr>wall = 63734688000000000, tzinfo = Some utc_minus_7\<rparr>
   \<and> aware \<lparr>wall = 63734688000000000, tzinfo = Some utc_minus_7\<rparr>
   \<and> add_days served_2020_08_28 16 = Inr \<lparr>wall = 63735552000000000, tzinfo = Some utc_minus_7\<rparr>
   \<and> aware \<lparr>wall = 63735552000000000, tzinfo = Some utc_minus_7\<rparr>
   \<and> localize_daylight today_2020_09_01
        = Inr \<lparr>wall = 63734515200000000, tzinfo = Some vancouver_daylight\<rparr>
   \<and> add_days \<lparr>wall = 63734515200000000, tzinfo = Some vancouver_daylight\<rparr> 4
        = Inr \<lparr>wall = 63734860800000000, tzinfo = Some vancouver_daylight\<rparr>
   \<and> add_days \<lparr>wall = 63734515200000000, tzinfo = Some vancouver_daylight\<rparr> 16
        = Inr \<lparr>wall = 63735897600000000, tzinfo = Some vancouver_daylight\<rparr>"
proof -
  have h: "ImmediateRoadside \<noteq> UnlicencedDriver"
    "add_days (replace_tzinfo today_2020_09_01 pytz_vancouver) 4
        = Inr \<lparr>wall = 63734860800000000, tzinfo = Some pytz_vancouver\<rparr>"
    "add_days served_2020_08_28 6 = Inr \<lparr>wall = 63734688000000000, tzinfo = Some utc_minus_7\<rparr>"
    "aware \<lparr>wall = 63734688000000000, tzinfo = Some utc_minus_7\<rparr>"
    "add_days served_2020_08_28 16 = Inr \<lparr>wall = 63735552000000000, tzinfo = Some utc_minus_7\<rparr>"
    "aware \<lparr>wall = 63735552000000000, tzinfo = Some utc_minus_7\<rparr>"
    "localize_daylight today_2020_09_01
        = Inr \<lparr>wall = 63734515200000000, tzinfo = Some vancouver_daylight\<rparr>"
    "add_days \<lparr>wall = 63734515200000000, tzinfo = Some vancouver_daylight\<rparr> 4
        = Inr \<lparr>wall = 63734860800000000, tzinfo = Some vancouver_daylight\<rparr>"
    "add_days \<lparr>wall = 63734515200000000, tzinfo = Some vancouver_daylight\<rparr> 16
        = Inr \<lparr>wall = 63735897600000000, tzinfo = Some vancouver_daylight\<rparr>"
    by (simp_all add: localize_daylight_def sample_defs datetime_eval)
  have b: "get_min_max_review_dates localize_daylight ImmediateRoadside served_2020_08_28 today_2020_09_01
     = Inr (\<lparr>wall = 63734860800000000, tzinfo = Some pytz_vancouver\<rparr>,
            \<lparr>wall = 63735552000000000, tzinfo = Some utc_minus_7\<rparr>)"
    by (simp add: base_get_min_max_review_dates_def sample_defs datetime_eval)
  have u: "get_min_max_review_dates localize_daylight UnlicencedDriver served_2020_08_28 today_2020_09_01
     = Inr (\<lparr>wall = 63734860800000000, tzinfo = Some vancouver_daylight\<rparr>,
            \<lparr>wall = 63735897600000000, tzinfo = Some vancouver_daylight\<rparr>)"
    by (simp add: ul_get_min_max_review_dates_def localize_daylight_def sample_defs datetime_eval)
  from b u
    review_window_min_le_max[of localize_daylight ImmediateRoadside served_2020_08_28 today_2020_09_01]
    review_window_min_le_max[of localize_daylight UnlicencedDriver served_2020_08_28 today_2020_09_01]
  have "dt_le \<lparr>wall = 63734860800000000, tzinfo = Some pytz_vancouver\<rparr>
            \<lparr>wall = 63735552000000000, tzinfo = Some utc_minus_7\<rparr> = Inr True"
    "dt_le \<lparr>wall = 63734860800000000, tzinfo = Some vancouver_daylight\<rparr>
            \<lparr>wall = 63735897600000000, tzinfo = Some vancouver_daylight\<rparr> = Inr True"
    by simp_all
  with b u h show ?thesis by simp
qed

text \<open>
  Claim C2 at a prohibition served on 2020-08-30 at 00:30, seven hours behind UTC, with
  today 2020-09-01. The claim's earliest possible date is 2020-09-05 00:00 in
  America/Vancouver civil time, which is daylight time on that day: it is earlier than the
  service date plus 6 days, 2020-09-05 00:30, so the five steps give the service date plus
  6 days as minimum date. The code attaches the zone object with
  \<^verbatim>\<open>replace\<close>, the object answers with local mean time, 8 hours 12 minutes behind
  UTC, its earliest possible date is later than the service date plus 6 days, and it
  returns the earliest possible date as minimum date. The two earliest possible dates are
  not equal.
\<close>

theorem base_window_replace_offset:
  "base_get_min_max_review_dates served_2020_08_30 today_2020_09_01
     = Inr (\<lparr>wall = 63734860800000000, tzinfo = Some pytz_vancouver\<rparr>,
            \<lparr>wall = 63735726600000000, tzinfo = Some utc_minus_7\<rparr>)
   \<and> add_days (replace_tzinfo today_2020_09_01 pytz_vancouver)
         (MIN_DAYS_FROM_SCHEDULING_TO_REVIEW ProhibitionBase)
       = Inr \<lparr>wall = 63734860800000000, tzinfo = Some pytz_vancouver\<rparr>
   \<and> utcoffset \<lparr>wall = 63734860800000000, tzinfo = Some pytz_vancouver\<rparr> = Inr (Some (- 29520000000))
   \<and> add_days served_2020_08_30 (MIN_DAYS_FROM_SERVED_TO_REVIEW ProhibitionBase)
       = Inr \<lparr>wall = 63734862600000000, tzinfo = Some utc_minus_7\<rparr>
   \<and> dt_gt \<lparr>wall = 63734860800000000, tzinfo = Some pytz_vancouver\<rparr>
           \<lparr>wall = 63734862600000000, tzinfo = Some utc_minus_7\<rparr> = Inr True
   \<and> add_days (replace_tzinfo today_2020_09_01 vancouver_daylight)
         (MIN_DAYS_FROM_SCHEDULING_TO_REVIEW ProhibitionBase)
       = Inr \<lparr>wall = 63734860800000000, tzinfo = Some vancouver_daylight\<rparr>
   \<and> utcoffset \<lparr>wall = 63734860800000000, tzinfo = Some vancouver_daylight\<rparr> = Inr (Some (- 25200000000))
   \<and> dt_gt \<lparr>wall = 63734860800000000, tzinfo = Some vancouver_daylight\<rparr>
           \<lparr>wall = 63734862600000000, tzinfo = Some utc_minus_7\<rparr> = Inr False
   \<and> dt_eq \<lparr>wall = 63734860800000000, tzinfo = Some pytz_vancouver\<rparr>
           \<lparr>wall = 63734860800000000, tzinfo = Some vancouver_daylight\<rparr> = Inr False"
  by (simp add: base_get_min_max_review_dates_def sample_defs datetime_eval)



text \<open>
  Claim C4. The UnlicencedDriver computation does not look at the service date: any two
  service dates give the same result for the same today. It returns a window exactly when
  the localizer accepts today and both sums are in range, and the window is then
  (localized today plus 4 days, localized today plus 16 days).
\<close>

theorem ul_window_ignores_service_date:
  "get_min_max_review_dates lt UnlicencedDriver service_date today
     = get_min_max_review_dates lt UnlicencedDriver other_service_date today
   \<and> (\<forall>mn mx. get_min_max_review_dates lt UnlicencedDriver service_date today = Inr (mn, mx)
        \<longleftrightarrow> (\<exists>t. lt today = Inr t \<and> add_days t 4 = Inr mn \<and> add_days t 16 = Inr mx))
   \<and> MIN_DAYS_FROM_SCHEDULING_TO_REVIEW UnlicencedDriver = 4
   \<and> MAX_DAYS_FROM_SERVED_TO_REVIEW UnlicencedDriver = 16"
  by (auto simp: ul_get_min_max_review_dates_def bind_err_eq_Inr)

text \<open>
  With today 2020-09-01 and a localizer that attaches daylight time the window is
  2020-09-05 to 2020-09-17, whether the prohibition was served on 2020-08-28 or on
  2020-07-01.
\<close>

theorem ul_window_ignores_service_date_witness:
  "get_min_max_review_dates localize_daylight UnlicencedDriver served_2020_08_28 today_2020_09_01
     = get_min_max_review_dates localize_daylight UnlicencedDriver served_2020_07_01 today_2020_09_01
   \<and> localize_daylight today_2020_09_01 = Inr \<lparr>wall = 63734515200000000, tzinfo = Some vancouver_daylight\<rparr>
   \<and> add_days \<lparr>wall = 63734515200000000, tzinfo = Some vancouver_daylight\<rparr> 4
        = Inr \<lparr>wall = 63734860800000000, tzinfo = Some vancouver_daylight\<rparr>
   \<and> add_days \<lparr>wall = 63734515200000000, tzinfo = Some vancouver_daylight\<rparr> 16
        = Inr \<lparr>wall = 63735897600000000, tzinfo = Some vancouver_daylight\<rparr>
   \<and> get_min_max_review_dates localize_daylight UnlicencedDriver served_2020_08_28 today_2020_09_01
     = Inr (\<lparr>wall = 63734860800000000, tzinfo = Some vancouver_daylight\<rparr>,
            \<lparr>wall = 63735897600000000, tzinfo = Some vancouver_daylight\<rparr>)"
proof -
  have h1: "localize_daylight today_2020_09_01 = Inr \<lparr>wall = 63734515200000000, tzinfo = Some vancouver_daylight\<rparr>"
    by (simp add: localize_daylight_def replace_tzinfo_def sample_defs)
  have h2: "add_days \<lparr>wall = 63734515200000000, tzinfo = Some vancouver_daylight\<rparr> 4
        = Inr \<lparr>wall = 63734860800000000, tzinfo = Some vancouver_daylight\<rparr>"
    by (simp add: add_days_def us_per_day_def max_wall_def)
  have h3: "add_days \<lparr>wall = 63734515200000000, tzinfo = Some vancouver_daylight\<rparr> 16
        = Inr \<lparr>wall = 63735897600000000, tzinfo = Some vancouver_daylight\<rparr>"
    by (simp add: add_days_def us_per_day_def max_wall_def)
  from h1 h2 h3
    ul_window_ignores_service_date[of localize_daylight served_2020_08_28 today_2020_09_01 served_2020_07_01]
  show ?thesis by blast
qed

text \<open>
  Claim C5. \<open>prohibition_factory\<close> maps UL to UnlicencedDriver, IRP to
  ImmediateRoadside and ADP to AdministrativeDriving; every other string gives no policy
  (the call returns None and logs one critical message, it does not raise).
\<close>

theorem prohibition_factory_codes:
  "fst (prohibition_factory ''UL'') = Some UnlicencedDriver
   \<and> fst (prohibition_factory ''IRP'') = Some ImmediateRoadside
   \<and> fst (prohibition_factory ''ADP'') = Some AdministrativeDriving
   \<and> (t \<noteq> ''UL'' \<and> t \<noteq> ''IRP'' \<and> t \<noteq> ''ADP'' \<longrightarrow>
        prohibition_factory t = (None, [''prohibition_type not known'']))"
  by (simp add: prohibition_factory_def)

text \<open>The unknown code XX.\<close>

theorem prohibition_factory_codes_witness:
  "''XX'' \<noteq> ''UL'' \<and> ''XX'' \<noteq> ''IRP'' \<and> ''XX'' \<noteq> ''ADP''
   \<and> prohibition_factory ''XX'' = (None, [''prohibition_type not known''])"
  using prohibition_factory_codes[of "''XX''"] by simp

text \<open>
  Claim C6. For a policy other than UnlicencedDriver, \<open>amount_due\<close> is 100 for WRIT,
  200 for ORAL and absent for every other presentation type; for UnlicencedDriver it is
  50 for every presentation type. These are the written and oral review prices of the
  base policy and the written review price of UnlicencedDriver.
\<close>

theorem amount_due_by_presentation_type:
  "(p \<noteq> UnlicencedDriver \<longrightarrow>
      amount_due p ''WRIT'' = Some 100 \<and> amount_due p ''ORAL'' = Some 200
      \<and> (t \<noteq> ''WRIT'' \<and> t \<noteq> ''ORAL'' \<longrightarrow> amount_due p t = None))
   \<and> amount_due UnlicencedDriver t = Some 50
   \<and> WRITTEN_REVIEW_PRICE ProhibitionBase = 100 \<and> ORAL_REVIEW_PRICE ProhibitionBase = 200
   \<and> WRITTEN_REVIEW_PRICE UnlicencedDriver = 50"
  by (cases p) (simp_all add: base_amount_due_def ul_amount_due_def)

text \<open>ImmediateRoadside with an unknown presentation type, UnlicencedDriver with ORAL.\<close>

theorem amount_due_by_presentation_type_witness:
  "ImmediateRoadside \<noteq> UnlicencedDriver \<and> ''CASH'' \<noteq> ''WRIT'' \<and> ''CASH'' \<noteq> ''ORAL''
   \<and> amount_due ImmediateRoadside ''WRIT'' = Some 100
   \<and> amount_due ImmediateRoadside ''ORAL'' = Some 200
   \<and> amount_due ImmediateRoadside ''CASH'' = None
   \<and> amount_due UnlicencedDriver ''ORAL'' = Some 50"
  using amount_due_by_presentation_type[of ImmediateRoadside "''CASH''"]
    amount_due_by_presentation_type[of ImmediateRoadside "''ORAL''"] by simp

text \<open>
  Claim C10. With a service date that carries no tzinfo the base computation never
  returns a window: the earliest possible date is timezone-aware, the legislated minimum
  is naive, and once both sums are in range their comparison raises TypeError.
\<close>

theorem base_window_naive_service_date:
  assumes "tzinfo service_date = None"
  shows "(\<forall>w. base_get_min_max_review_dates service_date today \<noteq> Inr w)
     \<and> (\<forall>E L. add_days (replace_tzinfo today pytz_vancouver) 4 = Inr E
             \<and> add_days service_date 6 = Inr L
           \<longrightarrow> base_get_min_max_review_dates service_date today = Inl TypeError)"
proof -
  have cmp: "dt_gt E L = Inl TypeError"
    if E: "add_days (replace_tzinfo today pytz_vancouver) 4 = Inr E"
      and L: "add_days service_date 6 = Inr L" for E L
  proof -
    from E have tzE: "tzinfo E = Some pytz_vancouver" by (rule earliest_tzinfo)
    from add_days_Inr[OF L] assms have tzL: "tzinfo L = None" by simp
    from tzE have "utcoffset E = Inr (Some vancouver_lmt)" by (rule utcoffset_replace_vancouver)
    moreover from tzL have "utcoffset L = Inr None" by (simp add: utcoffset_def)
    ultimately show ?thesis using tzE tzL by (simp add: dt_gt_def dt_cmp_def)
  qed
  have 2: "base_get_min_max_review_dates service_date today = Inl TypeError"
    if "add_days (replace_tzinfo today pytz_vancouver) 4 = Inr E"
      and "add_days service_date 6 = Inr L" for E L
    using that cmp[OF that] by (simp add: base_get_min_max_review_dates_def)
  have 1: "base_get_min_max_review_dates service_date today \<noteq> Inr w" for w
  proof
    assume "base_get_min_max_review_dates service_date today = Inr w"
    then obtain mn mx where "base_get_min_max_review_dates service_date today = Inr (mn, mx)"
      by (cases w) simp
    from base_window_unfold[OF this] obtain E L6 g1 where
      "add_days (replace_tzinfo today pytz_vancouver) 4 = Inr E" "add_days service_date 6 = Inr L6"
      "dt_gt E L6 = Inr g1" by blast
    with cmp[of E L6] show False by simp
  qed
  from 1 2 show ?thesis by blast
qed

text \<open>The naive service date 2020-08-28 with today 2020-09-01.\<close>

theorem base_window_naive_service_date_witness:
  "tzinfo naive_2020_08_28 = None
   \<and> add_days (replace_tzinfo today_2020_09_01 pytz_vancouver) 4
     = Inr \<lparr>wall = 63734860800000000, tzinfo = Some pytz_vancouver\<rparr>
   \<and> add_days naive_2020_08_28 6 = Inr \<lparr>wall = 63734688000000000, tzinfo = None\<rparr>
   \<and> base_get_min_max_review_dates naive_2020_08_28 today_2020_09_01 = Inl TypeError"
proof -
  have h0: "tzinfo naive_2020_08_28 = None" by (simp add: sample_defs)
  have h1: "add_days (replace_tzinfo today_2020_09_01 pytz_vancouver) 4
     = Inr \<lparr>wall = 63734860800000000, tzinfo = Some pytz_vancouver\<rparr>"
    by (simp add: sample_defs datetime_eval)
  have h2: "add_days naive_2020_08_28 6 = Inr \<lparr>wall = 63734688000000000, tzinfo = None\<rparr>"
    by (simp add: sample_defs datetime_eval)
  from base_window_naive_service_date[OF h0, of today_2020_09_01] h0 h1 h2 show ?thesis by blast
qed


section \<open>Weekday ranges\<close>

text \<open>
  Claim C8. \<open>list_of_weekdays_dates_between\<close> returns, in increasing order and without
  repetition, exactly the dates from the start date to the end date, both included, whose
  weekday is Monday to Friday (weekday numbers 0 to 4); Saturdays and Sundays never
  appear, also as endpoints; the sequence is empty when the end date is before the start
  date; and from 2020-09-01 to 2020-09-07 it is 2020-09-01, 02, 03, 04 and 2020-09-07.
\<close>

theorem weekdays_between:
  "sorted_wrt (<) (list_of_weekdays_dates_between start_date end_date)
   \<and> set (list_of_weekdays_dates_between start_date end_date)
       = {d. start_date \<le> d \<and> d \<le> end_date \<and> weekday d < 5}
   \<and> (end_date < start_date \<longrightarrow> list_of_weekdays_dates_between start_date end_date = [])
   \<and> weekday_abbrev ` {n. 0 \<le> n \<and> n < 5} = {''Mon'', ''Tue'', ''Wed'', ''Thu'', ''Fri''}
   \<and> list_of_weekdays_dates_between (ymd2ord 2020 9 1) (ymd2ord 2020 9 7) =
       [ymd2ord 2020 9 1, ymd2ord 2020 9 2, ymd2ord 2020 9 3, ymd2ord 2020 9 4, ymd2ord 2020 9 7]"
proof (intro conjI impI)
  show "sorted_wrt (<) (list_of_weekdays_dates_between start_date end_date)"
    unfolding list_of_weekdays_dates_between_def
    by (rule sorted_wrt_filter) (rule strict_sorted_upto)
next
  show "set (list_of_weekdays_dates_between start_date end_date)
       = {d. start_date \<le> d \<and> d \<le> end_date \<and> weekday d < 5}"
    by (auto simp: list_of_weekdays_dates_between_def)
next
  assume "end_date < start_date"
  then show "list_of_weekdays_dates_between start_date end_date = []"
    by (simp add: list_of_weekdays_dates_between_def)
next
  have "{n::int. 0 \<le> n \<and> n < 5} = {0, 1, 2, 3, 4}" by auto
  then show "weekday_abbrev ` {n. 0 \<le> n \<and> n < 5} = {''Mon'', ''Tue'', ''Wed'', ''Thu'', ''Fri''}"
    by (simp add: weekday_abbrev_def)
next
  show "list_of_weekdays_dates_between (ymd2ord 2020 9 1) (ymd2ord 2020 9 7) =
       [ymd2ord 2020 9 1, ymd2ord 2020 9 2, ymd2ord 2020 9 3, ymd2ord 2020 9 4, ymd2ord 2020 9 7]"
    by (rule weekdays_example)
qed

text \<open>
  The reversed range from 2020-09-07 to 2020-09-01 is empty, and the weekend of 2020-09-05
  and 2020-09-06, given as the two endpoints, yields no date.
\<close>

theorem weekdays_between_witness:
  "ymd2ord 2020 9 1 < ymd2ord 2020 9 7
   \<and> list_of_weekdays_dates_between (ymd2ord 2020 9 7) (ymd2ord 2020 9 1) = []
   \<and> ymd2ord 2020 9 5 \<notin> set (list_of_weekdays_dates_between (ymd2ord 2020 9 5) (ymd2ord 2020 9 6))
   \<and> weekday (ymd2ord 2020 9 5) = 5 \<and> weekday (ymd2ord 2020 9 6) = 6"
proof -
  have h: "ymd2ord 2020 9 1 < ymd2ord 2020 9 7" by (simp add: calendar_eval)
  have w: "weekday (ymd2ord 2020 9 5) = 5" "weekday (ymd2ord 2020 9 6) = 6"
    by (simp_all add: calendar_eval)
  from h w weekdays_between[of "ymd2ord 2020 9 7" "ymd2ord 2020 9 1"]
    weekdays_between[of "ymd2ord 2020 9 5" "ymd2ord 2020 9 6"]
  show ?thesis by simp
qed

section \<open>Round trip through the external date format\<close>





end
